theory Spec2Isabelle
  imports Complex_Main "HOL-Library.Char_ord" "HOL-Library.List_Lexorder" "HOL-Library.AList"
begin

section \<open>Python values, errors and keyword dictionaries\<close>

text \<open>
  The two modules of fyrd that are verified here are \<^verbatim>\<open>fyrd/helpers.py\<close> (the fan-out
  coordinator \<^verbatim>\<open>parapply\<close>) and \<^verbatim>\<open>fyrd/submission_scripts.py\<close> (the classes
  \<^verbatim>\<open>Script\<close> and \<^verbatim>\<open>Function\<close>). Python values that the code inspects dynamically
  are a datatype; every exception the code raises, re-raises or lets through is a value
  of \<open>error\<close>, and a call that may raise returns \<open>error + 'a\<close>.

  The definitions come first: the libraries, \<^verbatim>\<open>helpers.py\<close>, \<^verbatim>\<open>submission_scripts.py\<close>.
  The theorems follow, in this order: the partitioning step (C2), the check of the job
  count and the collection of results (C1, C4), the summary mode (C3), \<^verbatim>\<open>Script\<close> and
  the two \<^verbatim>\<open>write\<close> methods (C10, C7), the constructor of \<^verbatim>\<open>Function\<close> (C6, C9) and
  the imports of the driver script (C5, C8).
\<close>

datatype pyval =
    PyNone
  | PyBool bool
  | PyInt int
  | PyFloat rat
  | PyStr string
  | PyTuple "pyval list"

datatype error =
    ValueError string
  | IOError string
  | AttributeError string
  | UnboundLocalError string
  | TypeError string
  | PicklingError string

type_synonym kwds = "(string \<times> pyval) list"

text \<open>\<^verbatim>\<open>d.update(e)\<close> on dictionaries kept as association lists.\<close>

definition dict_update :: "kwds \<Rightarrow> kwds \<Rightarrow> kwds" where
  "dict_update d e = fold (\<lambda>(k, v). AList.update k v) e d"

text \<open>\<^verbatim>\<open>if k not in d: d[k] = v\<close>.\<close>

definition dict_setdefault :: "string \<Rightarrow> pyval \<Rightarrow> kwds \<Rightarrow> kwds" where
  "dict_setdefault k v d = (if k \<in> fst ` set d then d else d @ [(k, v)])"

text \<open>\<^verbatim>\<open>str(n)\<close> for an integer, as \<^verbatim>\<open>'{}'.format(n)\<close> prints it.\<close>

fun str_nat :: "nat \<Rightarrow> string" where
  "str_nat n = (if n < 10 then [''0123456789'' ! n]
                else str_nat (n div 10) @ [''0123456789'' ! (n mod 10)])"

definition str_int :: "int \<Rightarrow> string" where
  "str_int i = (if i < 0 then CHR ''-'' # str_nat (nat (- i)) else str_nat (nat i))"

section \<open>The numeric and tabular libraries\<close>

subsection \<open>\<^verbatim>\<open>numpy.array_split\<close> with a section count\<close>

text \<open>
  Modelled from the spec: \<^verbatim>\<open>numpy.array_split\<close> is called by \<^verbatim>\<open>parapply\<close> but is not part
  of the sources. Section 4.4 says the dataset is split into \<^verbatim>\<open>jobCount\<close> shards along the
  primary axis, as close to equal-sized as the count allows, in order. The definitions
  follow numpy's algorithm for a scalar section count: a count \<open>\<le> 0\<close> raises
  \<^verbatim>\<open>ValueError\<close>; otherwise \<^verbatim>\<open>Neach_section, extras = divmod(Ntotal, Nsections)\<close>, the
  section sizes are \<^verbatim>\<open>extras * [Neach_section + 1] + (Nsections - extras) * [Neach_section]\<close>,
  the division points are the cumulative sums of \<^verbatim>\<open>[0] + section_sizes\<close>, and section
  \<open>i\<close> is the slice \<^verbatim>\<open>ary[div_points[i]:div_points[i + 1]]\<close>.
\<close>

definition section_sizes :: "nat \<Rightarrow> nat \<Rightarrow> nat list" where
  "section_sizes Ntotal Nsections =
     (let Neach_section = Ntotal div Nsections; extras = Ntotal mod Nsections
      in replicate extras (Neach_section + 1) @ replicate (Nsections - extras) Neach_section)"

fun cumsum :: "nat \<Rightarrow> nat list \<Rightarrow> nat list" where
  "cumsum acc [] = []"
| "cumsum acc (x # xs) = (acc + x) # cumsum (acc + x) xs"

definition py_slice :: "'a list \<Rightarrow> nat \<Rightarrow> nat \<Rightarrow> 'a list" where
  "py_slice xs st en = take (en - st) (drop st xs)"

definition sub_arys :: "'a list \<Rightarrow> nat \<Rightarrow> 'a list list" where
  "sub_arys ary Nsections =
     (let div_points = cumsum 0 (0 # section_sizes (length ary) Nsections)
      in map (\<lambda>i. py_slice ary (div_points ! i) (div_points ! Suc i)) [0..<Nsections])"

definition array_split_list :: "'a list \<Rightarrow> int \<Rightarrow> error + 'a list list" where
  "array_split_list ary n =
     (if n \<le> 0 then Inl (ValueError ''number sections must be larger than 0.'')
      else Inr (sub_arys ary (nat n)))"

text \<open>Cutting a list into consecutive pieces of given sizes: the slices of \<open>sub_arys\<close>.\<close>

fun chunks :: "nat list \<Rightarrow> 'a list \<Rightarrow> 'a list list" where
  "chunks [] xs = []"
| "chunks (s # ss) xs = take s xs # chunks ss (drop s xs)"

subsection \<open>Series and data frames\<close>

text \<open>
  Modelled from the spec: pandas is not part of the sources. A cell is a number or NaN
  (\<open>None\<close>). A \<open>Series\<close> is a column of cells; a \<open>Frame c rows\<close> has \<open>c\<close> columns and
  the given rows. Labels are positional: the operations below are the pandas ones for
  operands whose labels agree, which is what the shards of one dataset and the
  per-shard results of one reduction are. \<^verbatim>\<open>concat\<close> of operands whose shapes do not
  fit fails with \<^verbatim>\<open>ValueError\<close> (section 4.4, \<^verbatim>\<open>MergeFailure\<close>).
\<close>

type_synonym cell = "rat option"

datatype pdobj = Series "cell list" | Frame nat "cell list list"

fun nrows :: "pdobj \<Rightarrow> nat" where
  "nrows (Series xs) = length xs"
| "nrows (Frame c rows) = length rows"

fun is_Series :: "pdobj \<Rightarrow> bool" where
  "is_Series (Series xs) = True"
| "is_Series (Frame c rows) = False"

fun series_values :: "pdobj \<Rightarrow> cell list" where
  "series_values (Series xs) = xs"
| "series_values (Frame c rows) = []"

fun ncols :: "pdobj \<Rightarrow> nat" where
  "ncols (Series xs) = 1"
| "ncols (Frame c rows) = c"

fun frame_rows :: "pdobj \<Rightarrow> cell list list" where
  "frame_rows (Series xs) = []"
| "frame_rows (Frame c rows) = rows"

text \<open>Column \<open>j\<close> of a list of rows, and the columns of a frame.\<close>

definition column :: "cell list list \<Rightarrow> nat \<Rightarrow> cell list" where
  "column rows j = map (\<lambda>r. r ! j) rows"

definition frame_columns :: "nat \<Rightarrow> cell list list \<Rightarrow> cell list list" where
  "frame_columns c rows = map (column rows) [0..<c]"

text \<open>\<^verbatim>\<open>numpy.array_split(df, n)\<close>: the rows of a frame (the cells of a series) are split.\<close>

fun numpy_array_split :: "pdobj \<Rightarrow> int \<Rightarrow> error + pdobj list" where
  "numpy_array_split (Series xs) n = map_sum id (map Series) (array_split_list xs n)"
| "numpy_array_split (Frame c rows) n = map_sum id (map (Frame c)) (array_split_list rows n)"

text \<open>
  \<^verbatim>\<open>pandas.concat(objs, axis)\<close>. Axis 0 stacks rows; axis 1 puts the operands side by
  side, so that series of one length become the columns of a frame.
\<close>

definition pandas_concat :: "pdobj list \<Rightarrow> int \<Rightarrow> error + pdobj" where
  "pandas_concat objs axis =
     (if objs = [] then Inl (ValueError ''No objects to concatenate'')
      else if axis = 0 then
        (if list_all is_Series objs then Inr (Series (concat (map series_values objs)))
         else if list_all (\<lambda>d. \<not> is_Series d \<and> ncols d = ncols (hd objs)) objs
         then Inr (Frame (ncols (hd objs)) (concat (map frame_rows objs)))
         else Inl (ValueError ''concat: shapes do not fit''))
      else if axis = 1 then
        (if list_all (\<lambda>d. is_Series d \<and> nrows d = nrows (hd objs)) objs
         then Inr (Frame (length objs)
                (map (\<lambda>i. map (\<lambda>d. series_values d ! i) objs) [0..<nrows (hd objs)]))
         else if list_all (\<lambda>d. \<not> is_Series d \<and> nrows d = nrows (hd objs)) objs
         then Inr (Frame (sum_list (map ncols objs))
                (map (\<lambda>i. concat (map (\<lambda>d. frame_rows d ! i) objs)) [0..<nrows (hd objs)]))
         else Inl (ValueError ''concat: shapes do not fit''))
      else Inl (ValueError ''No axis named''))"

text \<open>\<^verbatim>\<open>obj.T\<close>: the columns of a frame become its rows; a series is its own transpose.\<close>

fun pandas_T :: "pdobj \<Rightarrow> pdobj" where
  "pandas_T (Series xs) = Series xs"
| "pandas_T (Frame c rows) = Frame (length rows) (frame_columns c rows)"

text \<open>
  A Python callable handed to \<^verbatim>\<open>apply\<close> is called on a whole column (a series) and,
  by \<^verbatim>\<open>Series.apply\<close> and \<^verbatim>\<open>applymap\<close>, on single cells; both receive the keyword
  arguments of the call.
\<close>

record ufunc =
  on_series :: "kwds \<Rightarrow> cell list \<Rightarrow> cell"
  on_cell :: "kwds \<Rightarrow> cell \<Rightarrow> cell"

text \<open>
  The mean of a column as \<^verbatim>\<open>Series.mean\<close> computes it: NaN cells are skipped, and a
  column with no number has the mean NaN.
\<close>

definition col_mean :: "cell list \<Rightarrow> cell" where
  "col_mean xs =
     (let vs = List.map_filter id xs
      in if vs = [] then None else Some (sum_list vs / of_nat (length vs)))"

definition mean_func :: ufunc where
  "mean_func = \<lparr>on_series = (\<lambda>kw. col_mean), on_cell = (\<lambda>kw x. x)\<rparr>"

section \<open>Modules and function objects\<close>

text \<open>
  What \<^verbatim>\<open>inspect\<close> reports about a module: its \<^verbatim>\<open>__name__\<close>, its \<^verbatim>\<open>__file__\<close> when it
  has one, and its members that are modules (\<^verbatim>\<open>inspect.getmembers(m, inspect.ismodule)\<close>,
  each with the member's name and the \<^verbatim>\<open>__name__\<close> of the module it is bound to).
  A function object has a \<^verbatim>\<open>__name__\<close>, a \<^verbatim>\<open>__module__\<close> attribute, the module that
  \<^verbatim>\<open>inspect.getmodule\<close> finds for it (or none), and its behaviour.
\<close>

record pymodule =
  mod_name :: string
  mod_file :: "string option"
  mod_members :: "(string \<times> string) list"

record 'b pyfunc =
  fn_name :: string
  fn_module :: string
  fn_rootmod :: "pymodule option"
  fn_body :: 'b

definition startswith :: "string \<Rightarrow> string \<Rightarrow> bool" where
  "startswith s p = (take (length p) s = p)"

section \<open>The fan-out coordinator: \<^verbatim>\<open>fyrd/helpers.py\<close>\<close>

subsection \<open>Collaborators\<close>

text \<open>
  \<^verbatim>\<open>parapply\<close> calls numpy and pandas (\<open>lib\<close>) and two parts of fyrd that are not among
  the sources: \<^verbatim>\<open>options.split_keywords\<close> and the class \<^verbatim>\<open>Job\<close> with its methods
  \<^verbatim>\<open>submit\<close> and \<^verbatim>\<open>get\<close> (\<open>cluster\<close>). They are parameters of the model. A job is the
  record of the arguments \<^verbatim>\<open>parapply\<close> constructs it with: the dispatcher
  (\<^verbatim>\<open>_run_applymap\<close> or \<^verbatim>\<open>_run_apply\<close>), its argument tuple
  \<^verbatim>\<open>(d, func, args, pandas_kwds)\<close>, and the keywords \<^verbatim>\<open>profile\<close>, \<^verbatim>\<open>name\<close>,
  \<^verbatim>\<open>imports\<close> and \<^verbatim>\<open>**fyrd_kwds\<close>.
\<close>

record ('d, 'b) lib =
  array_split :: "'d \<Rightarrow> int \<Rightarrow> error + 'd list"
  pd_concat :: "'d list \<Rightarrow> int \<Rightarrow> error + 'd"
  df_apply :: "'d \<Rightarrow> 'b pyfunc \<Rightarrow> kwds \<Rightarrow> error + 'd"
  df_applymap :: "'d \<Rightarrow> 'b pyfunc \<Rightarrow> kwds \<Rightarrow> error + 'd"
  df_T :: "'d \<Rightarrow> 'd"

record ('d, 'b) job =
  job_applymap :: bool
  job_shard :: 'd
  job_func :: "'b pyfunc"
  job_args :: "pyval list"
  job_pandas_kwds :: kwds
  job_profile :: "string option"
  job_name :: string
  job_imports :: "string list"
  job_kwds :: kwds

record ('d, 'b, 'h) cluster =
  split_keywords :: "kwds \<Rightarrow> kwds \<times> kwds"
  submit :: "('d, 'b) job \<Rightarrow> error + 'h"
  get_result :: "'h \<Rightarrow> error + 'd"

text \<open>
  What a call does besides returning: the messages it logs (text and level), the call of
  \<^verbatim>\<open>array_split\<close> with its section count, the module globals it sets, the jobs it
  submits (by name), the shard results it waits for (by position), the concatenation
  (with its axis) and the second application of the function.
\<close>

datatype event =
    Log string string
  | Partition int
  | SetGlobal string string
  | Submit string
  | Collect nat
  | Concat int
  | Reapply

text \<open>The \<^verbatim>\<open>imports\<close> argument: absent, one string, or a list of strings.\<close>

datatype imports_arg = ImportsNone | ImportsStr string | ImportsList "string list"

text \<open>
  The arguments of one call of \<^verbatim>\<open>parapply\<close> (and of \<^verbatim>\<open>parapply_summary\<close>, which does
  not read \<^verbatim>\<open>merge_axis\<close> and \<^verbatim>\<open>merge_apply\<close>); \<open>arg_kwds\<close> is \<^verbatim>\<open>**kwds\<close>.
\<close>

record ('d, 'b) call =
  arg_jobs :: pyval
  arg_df :: 'd
  arg_func :: "'b pyfunc"
  arg_args :: "pyval list"
  arg_profile :: "string option"
  arg_applymap :: bool
  arg_merge_axis :: int
  arg_merge_apply :: bool
  arg_name :: string
  arg_imports :: imports_arg
  arg_kwds :: kwds

subsection \<open>\<^verbatim>\<open>_run_apply\<close> and \<^verbatim>\<open>_run_applymap\<close>\<close>

definition apply_kwds :: "pyval list \<Rightarrow> kwds \<Rightarrow> kwds" where
  "apply_kwds args pandas_kwds =
     (let kw = (if args \<noteq> [] then [(''args'', PyTuple args)] else [])
      in if pandas_kwds \<noteq> [] then dict_update kw pandas_kwds else kw)"

definition run_apply ::
  "('d, 'b) lib \<Rightarrow> 'd \<Rightarrow> 'b pyfunc \<Rightarrow> pyval list \<Rightarrow> kwds \<Rightarrow> error + 'd" where
  "run_apply L df func args pandas_kwds = df_apply L df func (apply_kwds args pandas_kwds)"

definition run_applymap ::
  "('d, 'b) lib \<Rightarrow> 'd \<Rightarrow> 'b pyfunc \<Rightarrow> pyval list \<Rightarrow> kwds \<Rightarrow> error + 'd" where
  "run_applymap L df func args pandas_kwds = df_applymap L df func (apply_kwds args pandas_kwds)"

text \<open>\<^verbatim>\<open>sub_func = _run_applymap if applymap else _run_apply\<close>.\<close>

definition sub_func ::
  "('d, 'b) lib \<Rightarrow> bool \<Rightarrow> 'd \<Rightarrow> 'b pyfunc \<Rightarrow> pyval list \<Rightarrow> kwds \<Rightarrow> error + 'd" where
  "sub_func L applymap = (if applymap then run_applymap L else run_apply L)"

subsection \<open>\<^verbatim>\<open>parapply\<close>\<close>

text \<open>\<^verbatim>\<open>isinstance(jobs, int)\<close>: true of integers and, in Python, of booleans.\<close>

fun isinstance_int :: "pyval \<Rightarrow> bool" where
  "isinstance_int (PyInt n) = True"
| "isinstance_int (PyBool b) = True"
| "isinstance_int v = False"

fun int_value :: "pyval \<Rightarrow> int" where
  "int_value (PyInt n) = n"
| "int_value (PyBool b) = (if b then 1 else 0)"
| "int_value v = 0"

fun format_value :: "pyval \<Rightarrow> string" where
  "format_value (PyInt n) = str_int n"
| "format_value (PyBool b) = (if b then ''True'' else ''False'')"
| "format_value v = []"

text \<open>Lines 145 to 154: the caller's imports, then eight fixed ones.\<close>

definition sane_imports :: "imports_arg \<Rightarrow> string list" where
  "sane_imports imports =
     (case imports of
        ImportsNone \<Rightarrow> []
      | ImportsStr s \<Rightarrow> (if s = [] then [] else [s])
      | ImportsList l \<Rightarrow> l)
     @ [''import numpy as np'', ''import numpy'', ''import scipy as sp'',
        ''import sp'', ''import pandas as pd'', ''import pandas'',
        ''from matplotlib import pyplot as plt'',
        ''from scipy import stats'']"

text \<open>
  Lines 157 to 166: one job per shard, named \<^verbatim>\<open>'{}_{}_of_{}'.format(name, count, jobs)\<close>
  with \<open>count\<close> from 1, submitted as soon as it is built. A submission that raises ends
  the loop.
\<close>

fun submit_jobs ::
  "('d, 'b, 'h) cluster \<Rightarrow> (nat \<Rightarrow> 'd \<Rightarrow> ('d, 'b) job) \<Rightarrow> nat \<Rightarrow> 'd list
     \<Rightarrow> event list \<times> (error + 'h list)" where
  "submit_jobs C mk count [] = ([], Inr [])"
| "submit_jobs C mk count (d # dfs) =
     (case submit C (mk count d) of
        Inl e \<Rightarrow> ([Submit (job_name (mk count d))], Inl e)
      | Inr out \<Rightarrow>
          (case submit_jobs C mk (count + 1) dfs of
             (tr, r) \<Rightarrow> (Submit (job_name (mk count d)) # tr, map_sum id ((#) out) r)))"

text \<open>
  Lines 169 to 176: the results are fetched in the order of the handles. An
  \<^verbatim>\<open>IOError\<close> is logged at level critical and raised again; any other exception leaves
  the loop as it is.
\<close>

fun is_IOError :: "error \<Rightarrow> bool" where
  "is_IOError (IOError m) = True"
| "is_IOError e = False"

fun is_ValueError :: "error \<Rightarrow> bool" where
  "is_ValueError (ValueError m) = True"
| "is_ValueError e = False"

definition get_failed :: event where
  "get_failed = Log (''Result getting failed, most likely one of the child '' @
                     ''jobs crashed, check the error files'') ''critical''"

fun collect_results ::
  "('d, 'b, 'h) cluster \<Rightarrow> nat \<Rightarrow> 'h list \<Rightarrow> event list \<times> (error + 'd list)" where
  "collect_results C i [] = ([], Inr [])"
| "collect_results C i (out # outs) =
     (case get_result C out of
        Inl e \<Rightarrow> (Collect i # (if is_IOError e then [get_failed] else []), Inl e)
      | Inr r \<Rightarrow>
          (case collect_results C (Suc i) outs of
             (tr, rs) \<Rightarrow> (Collect i # tr, map_sum id ((#) r) rs)))"

text \<open>
  Lines 120 to 166 of \<^verbatim>\<open>parapply\<close>: the keyword split, the check of \<^verbatim>\<open>jobs\<close>, the
  cleaning defaults, the split of the dataset, the module globals, the imports and the
  submissions. \<^verbatim>\<open>inspect.getmodule(func)\<close> that finds no module makes
  \<^verbatim>\<open>rootmod.__name__\<close> raise \<^verbatim>\<open>AttributeError\<close>. The result is the list of job handles
  together with \<^verbatim>\<open>pandas_kwds\<close>.
\<close>

definition make_job :: "('d, 'b) call \<Rightarrow> kwds \<Rightarrow> kwds \<Rightarrow> nat \<Rightarrow> 'd \<Rightarrow> ('d, 'b) job" where
  "make_job a fyrd_kwds pandas_kwds count d =
     \<lparr>job_applymap = arg_applymap a, job_shard = d, job_func = arg_func a,
      job_args = arg_args a, job_pandas_kwds = pandas_kwds, job_profile = arg_profile a,
      job_name = arg_name a @ ''_'' @ str_nat count @ ''_of_'' @ format_value (arg_jobs a),
      job_imports = sane_imports (arg_imports a), job_kwds = fyrd_kwds\<rparr>"

definition parapply_submit ::
  "('d, 'b) lib \<Rightarrow> ('d, 'b, 'h) cluster \<Rightarrow> ('d, 'b) call
     \<Rightarrow> event list \<times> (error + 'h list \<times> kwds)" where
  "parapply_submit L C a =
     (case split_keywords C (arg_kwds a) of (fyrd_kwds0, pandas_kwds) \<Rightarrow>
        if \<not> isinstance_int (arg_jobs a)
        then ([], Inl (ValueError ''Jobs argument must be an integer.''))
        else
          let fyrd_kwds = dict_setdefault ''clean_outputs'' (PyBool True)
                            (dict_setdefault ''clean_files'' (PyBool True) fyrd_kwds0);
              n = int_value (arg_jobs a)
          in case array_split L (arg_df a) n of
               Inl e \<Rightarrow> ([Partition n], Inl e)
             | Inr dfs \<Rightarrow>
                (case fn_rootmod (arg_func a) of
                   None \<Rightarrow> ([Partition n], Inl (AttributeError ''__name__''))
                 | Some rootmod \<Rightarrow>
                     let globs = SetGlobal (mod_name rootmod) (mod_name rootmod) #
                                 map (\<lambda>(k, v). SetGlobal k v)
                                   (filter (\<lambda>(k, v). \<not> startswith k ''__'') (mod_members rootmod))
                     in case submit_jobs C (make_job a fyrd_kwds pandas_kwds) 1 dfs of
                          (tr, r) \<Rightarrow>
                            (Partition n # globs @ tr,
                             map_sum id (\<lambda>outs. (outs, pandas_kwds)) r)))"

text \<open>
  \<^verbatim>\<open>parapply\<close>: the part above, then lines 168 to 188: the results are collected, merged
  with \<^verbatim>\<open>pandas.concat\<close> along \<^verbatim>\<open>merge_axis\<close> (a \<^verbatim>\<open>ValueError\<close> is logged at level
  critical and raised again) and, with \<^verbatim>\<open>merge_apply\<close>, handed to the dispatcher once
  more. The result is the list of events and the returned value or the exception.
\<close>

definition concat_failed :: event where
  "concat_failed = Log ''DataFrame concatenation failed!'' ''critical''"

definition parapply ::
  "('d, 'b) lib \<Rightarrow> ('d, 'b, 'h) cluster \<Rightarrow> ('d, 'b) call \<Rightarrow> event list \<times> (error + 'd)" where
  "parapply L C a =
     (case parapply_submit L C a of
        (t1, Inl e) \<Rightarrow> (t1, Inl e)
      | (t1, Inr (outs, pandas_kwds)) \<Rightarrow>
          (case collect_results C 0 outs of
             (t2, Inl e) \<Rightarrow> (t1 @ t2, Inl e)
           | (t2, Inr results) \<Rightarrow>
               (case pd_concat L results (arg_merge_axis a) of
                  Inl e \<Rightarrow>
                    (t1 @ t2 @ Concat (arg_merge_axis a) #
                       (if is_ValueError e then [concat_failed] else []),
                     Inl e)
                | Inr out \<Rightarrow>
                    if arg_merge_apply a
                    then (t1 @ t2 @ [Concat (arg_merge_axis a), Reapply],
                          sub_func L (arg_applymap a) out (arg_func a) (arg_args a) pandas_kwds)
                    else (t1 @ t2 @ [Concat (arg_merge_axis a)], Inr out))))"

subsection \<open>\<^verbatim>\<open>parapply_summary\<close>\<close>


subsection \<open>The libraries and a cluster that runs the jobs\<close>

text \<open>
  \<^verbatim>\<open>DataFrame.apply(func, **kwds)\<close> calls the function on every column (on every row
  with \<^verbatim>\<open>axis=1\<close>) and returns the series of the results; \<^verbatim>\<open>Series.apply\<close> and
  \<^verbatim>\<open>DataFrame.applymap\<close> call it on every cell. A series has no \<^verbatim>\<open>applymap\<close>.
\<close>

definition pandas_apply :: "pdobj \<Rightarrow> ufunc pyfunc \<Rightarrow> kwds \<Rightarrow> error + pdobj" where
  "pandas_apply d func kw =
     (case d of
        Series xs \<Rightarrow> Inr (Series (map (on_cell (fn_body func) kw) xs))
      | Frame c rows \<Rightarrow>
          (case map_of kw ''axis'' of
             None \<Rightarrow> Inr (Series (map (on_series (fn_body func) kw) (frame_columns c rows)))
           | Some a \<Rightarrow>
               if a = PyInt 0
               then Inr (Series (map (on_series (fn_body func) (AList.delete ''axis'' kw))
                                   (frame_columns c rows)))
               else if a = PyInt 1
               then Inr (Series (map (on_series (fn_body func) (AList.delete ''axis'' kw)) rows))
               else Inl (ValueError ''No axis named'')))"

definition pandas_applymap :: "pdobj \<Rightarrow> ufunc pyfunc \<Rightarrow> kwds \<Rightarrow> error + pdobj" where
  "pandas_applymap d func kw =
     (case d of
        Series xs \<Rightarrow> Inl (AttributeError ''Series object has no attribute applymap'')
      | Frame c rows \<Rightarrow> Inr (Frame c (map (map (on_cell (fn_body func) kw)) rows)))"

definition pandas_lib :: "(pdobj, ufunc) lib" where
  "pandas_lib = \<lparr>array_split = numpy_array_split, pd_concat = pandas_concat,
                 df_apply = pandas_apply, df_applymap = pandas_applymap, df_T = pandas_T\<rparr>"

text \<open>
  Modelled from the spec: the class \<^verbatim>\<open>Job\<close> and \<^verbatim>\<open>options.split_keywords\<close> are not part
  of the sources. By sections 4.2 and 6 a submitted task calls its function on its
  arguments and its result is the value returned, and collecting reports a failure
  distinctly. So a job runs its dispatcher on its argument tuple; the cluster
  \<open>local_cluster\<close> hands every keyword to pandas, accepts every job, and \<^verbatim>\<open>get\<close> returns
  what the job computes, unless \<open>fails\<close> names an exception for the job.
\<close>

definition run_job :: "('d, 'b) lib \<Rightarrow> ('d, 'b) job \<Rightarrow> error + 'd" where
  "run_job L j =
     sub_func L (job_applymap j) (job_shard j) (job_func j) (job_args j) (job_pandas_kwds j)"

definition local_cluster ::
  "('d, 'b) lib \<Rightarrow> (string \<Rightarrow> error option) \<Rightarrow> ('d, 'b, ('d, 'b) job) cluster" where
  "local_cluster L fails =
     \<lparr>split_keywords = (\<lambda>kw. ([], kw)),
      submit = Inr,
      get_result = (\<lambda>j. case fails (job_name j) of Some e \<Rightarrow> Inl e | None \<Rightarrow> run_job L j)\<rparr>"

subsection \<open>Example inputs\<close>

text \<open>
  A function \<^verbatim>\<open>colmean\<close> of a module \<^verbatim>\<open>analysis\<close> that computes the mean of a column, a
  dataset of one column with the rows 0, 0 and 3, a call that splits it in two, and a
  cluster on which the second of two jobs crashes.
\<close>

definition example_func :: "ufunc pyfunc" where
  "example_func =
     \<lparr>fn_name = ''colmean'', fn_module = ''analysis'',
      fn_rootmod = Some \<lparr>mod_name = ''analysis'', mod_file = Some ''/home/user/analysis.py'',
                          mod_members = [(''np'', ''numpy'')]\<rparr>,
      fn_body = mean_func\<rparr>"

definition example_df :: pdobj where
  "example_df = Frame 1 [[Some 0], [Some 0], [Some 3]]"

definition example_call :: "(pdobj, ufunc) call" where
  "example_call =
     \<lparr>arg_jobs = PyInt 2, arg_df = example_df, arg_func = example_func, arg_args = [],
      arg_profile = None, arg_applymap = False, arg_merge_axis = 0, arg_merge_apply = False,
      arg_name = ''parapply'', arg_imports = ImportsNone, arg_kwds = []\<rparr>"

definition crash_second :: "string \<Rightarrow> error option" where
  "crash_second n = (if n = ''parapply_2_of_2'' then Some (IOError ''crash'') else None)"



section \<open>Submission scripts: \<^verbatim>\<open>fyrd/submission_scripts.py\<close>\<close>

subsection \<open>Strings and paths\<close>

definition nl :: string where
  "nl = [CHR 0x0A]"

definition quote :: string where
  "quote = [CHR 0x27]"

text \<open>\<^verbatim>\<open>sep.join(xs)\<close>, \<^verbatim>\<open>s.split(sep)\<close> for a one-character separator, \<^verbatim>\<open>s.rstrip()\<close>.\<close>

fun str_join :: "string \<Rightarrow> string list \<Rightarrow> string" where
  "str_join sep [] = []"
| "str_join sep [x] = x"
| "str_join sep (x # y # ys) = x @ sep @ str_join sep (y # ys)"

fun str_split :: "char \<Rightarrow> string \<Rightarrow> string list" where
  "str_split sep [] = [[]]"
| "str_split sep (c # cs) =
     (if c = sep then [] # str_split sep cs
      else (case str_split sep cs of
              [] \<Rightarrow> [[c]]
            | w # ws \<Rightarrow> (c # w) # ws))"

definition is_space :: "char \<Rightarrow> bool" where
  "is_space c = (c \<in> set [CHR '' '', CHR 0x09, CHR 0x0A, CHR 0x0B, CHR 0x0C, CHR 0x0D])"

definition rstrip :: "string \<Rightarrow> string" where
  "rstrip s = rev (dropWhile is_space (rev s))"

text \<open>
  \<^verbatim>\<open>os.path.split\<close> and \<^verbatim>\<open>os.path.splitext\<close> of \<^verbatim>\<open>posixpath\<close>, which are not part of the
  sources: the tail is what follows the last slash, and the head what precedes it, with
  its trailing slashes removed unless it consists of slashes only; the extension starts
  at the last dot of the name, unless only dots precede that dot.
\<close>

definition path_split :: "string \<Rightarrow> string \<times> string" where
  "path_split p =
     (let tail = rev (takeWhile (\<lambda>c. c \<noteq> CHR ''/'') (rev p));
          head = rev (dropWhile (\<lambda>c. c \<noteq> CHR ''/'') (rev p))
      in (if head \<noteq> [] \<and> \<not> list_all (\<lambda>c. c = CHR ''/'') head
          then rev (dropWhile (\<lambda>c. c = CHR ''/'') (rev head)) else head,
          tail))"

definition path_splitext :: "string \<Rightarrow> string \<times> string" where
  "path_splitext p =
     (if CHR ''.'' \<notin> set p then (p, [])
      else
        let ext = rev (takeWhile (\<lambda>c. c \<noteq> CHR ''.'') (rev p));
            root = rev (tl (dropWhile (\<lambda>c. c \<noteq> CHR ''.'') (rev p)))
        in if list_all (\<lambda>c. c = CHR ''.'') root then (p, []) else (root, CHR ''.'' # ext))"

subsection \<open>Import entries and the surroundings of the module\<close>

text \<open>
  An entry of the \<^verbatim>\<open>imports\<close> list is a string (a module name or a whole import
  statement) or a pair \<^verbatim>\<open>(name, module.__name__)\<close> of the name a module is bound to and
  the name of the module. The argument \<^verbatim>\<open>imports\<close> is absent, one string, a list or a
  tuple.
\<close>

datatype imp = ImpStr string | ImpTuple string string

datatype hints = HintsNone | HintStr string | HintList "imp list" | HintTuple "imp list"

text \<open>
  The surroundings of the constructor: \<^verbatim>\<open>os.path.abspath\<close> and \<^verbatim>\<open>os.path.join\<close>,
  \<^verbatim>\<open>sys.executable\<close>, the modules among the globals of \<^verbatim>\<open>submission_scripts\<close> (name and
  \<^verbatim>\<open>__name__\<close>), \<^verbatim>\<open>run.indent\<close> and the template \<^verbatim>\<open>run.FUNC_RUNNER\<close> (with its
  fields \<^verbatim>\<open>name\<close>, \<^verbatim>\<open>path\<close>, \<^verbatim>\<open>modimpstr\<close>, \<^verbatim>\<open>imports\<close>, \<^verbatim>\<open>pickle_file\<close>,
  \<^verbatim>\<open>out_file\<close>), which are not part of the sources, and the order in which Python
  iterates over a set built from a list: \<open>set_imps\<close> for \<^verbatim>\<open>list(set(imports))\<close> and
  \<open>set_strs\<close> for \<^verbatim>\<open>set(filtered_imports)\<close>.
\<close>

record runtime =
  abspath :: "string \<Rightarrow> string"
  path_join :: "string \<Rightarrow> string list \<Rightarrow> string"
  sys_executable :: string
  module_globals :: "(string \<times> string) list"
  indent :: "string \<Rightarrow> string \<Rightarrow> string"
  FUNC_RUNNER :: "string \<Rightarrow> string \<Rightarrow> string \<Rightarrow> string \<Rightarrow> string \<Rightarrow> string \<Rightarrow> string"
  set_imps :: "imp list \<Rightarrow> imp list"
  set_strs :: "string list \<Rightarrow> string list"

text \<open>
  What is known of the iteration over a set: every element of the list once, in some
  order.
\<close>

definition set_order :: "('a list \<Rightarrow> 'a list) \<Rightarrow> bool" where
  "set_order f = (\<forall>xs. distinct (f xs) \<and> set (f xs) = set xs)"

subsection \<open>The file system and the log\<close>

text \<open>
  The files are a map from absolute paths to contents; the log is the list of the
  messages handed to \<^verbatim>\<open>logme.log\<close>, each with its level.
\<close>

record world =
  files :: "string \<rightharpoonup> string"
  logged :: "(string \<times> string) list"

definition path_exists :: "world \<Rightarrow> string \<Rightarrow> bool" where
  "path_exists w p = (files w p \<noteq> None)"

definition write_file :: "string \<Rightarrow> string \<Rightarrow> world \<Rightarrow> world" where
  "write_file p content w = w\<lparr>files := (files w)(p \<mapsto> content)\<rparr>"

definition logme_log :: "string \<Rightarrow> string \<Rightarrow> world \<Rightarrow> world" where
  "logme_log msg level w = w\<lparr>logged := logged w @ [(msg, level)]\<rparr>"

subsection \<open>The class \<^verbatim>\<open>Script\<close>\<close>

text \<open>
  An instance holds \<^verbatim>\<open>script\<close> and \<^verbatim>\<open>file_name\<close>; \<^verbatim>\<open>written\<close> is \<^verbatim>\<open>False\<close> in the class
  and is set on the instance by \<^verbatim>\<open>write\<close>.
\<close>

record script_obj =
  script :: string
  file_name :: string
  written :: bool

definition Script_init :: "runtime \<Rightarrow> string \<Rightarrow> string \<Rightarrow> script_obj" where
  "Script_init R fname text =
     \<lparr>script = text, file_name = abspath R fname, written = False\<rparr>"

text \<open>
  \<^verbatim>\<open>Script.write(overwrite)\<close>: the returned triple is the world after the call, the object
  after the call and the returned value (\<open>None\<close> for Python's \<^verbatim>\<open>None\<close>).
\<close>

definition Script_write ::
  "'a script_obj_scheme \<Rightarrow> bool \<Rightarrow> world \<Rightarrow> world \<times> 'a script_obj_scheme \<times> string option" where
  "Script_write self overwrite w =
     (let w1 = logme_log (''Script: Writing '' @ file_name self) ''debug'' w
      in if overwrite \<or> \<not> path_exists w1 (file_name self)
         then (write_file (file_name self) (script self @ nl) w1,
               self\<lparr>written := True\<rparr>, Some (file_name self))
         else (w1, self, None))"

text \<open>\<^verbatim>\<open>Script.__getattr__\<close>, which Python calls when the normal lookup finds nothing.\<close>

definition Script_getattr_hook :: "world \<Rightarrow> 'a script_obj_scheme \<Rightarrow> string \<Rightarrow> pyval" where
  "Script_getattr_hook w self attr =
     (if attr = ''exists'' then PyBool (path_exists w (file_name self)) else PyNone)"

text \<open>
  Reading \<^verbatim>\<open>self.attr\<close>. The normal lookup searches the instance dictionary and then the
  class and its bases; \<open>inherited\<close> stands for what \<^verbatim>\<open>object\<close> provides, and a method is
  the value \<open>PyStr\<close> of its qualified name. Only when the lookup raises
  \<^verbatim>\<open>AttributeError\<close> is \<^verbatim>\<open>__getattr__\<close> called.
\<close>

definition instance_dict :: "'a script_obj_scheme \<Rightarrow> (string \<times> pyval) list" where
  "instance_dict self =
     [(''script'', PyStr (script self)), (''file_name'', PyStr (file_name self))]
     @ (if written self then [(''written'', PyBool True)] else [])"

definition Script_class_dict :: "(string \<times> pyval) list" where
  "Script_class_dict =
     [(''written'', PyBool False),
      (''__init__'', PyStr ''Script.__init__''), (''write'', PyStr ''Script.write''),
      (''clean'', PyStr ''Script.clean''), (''__getattr__'', PyStr ''Script.__getattr__''),
      (''__repr__'', PyStr ''Script.__repr__''), (''__str__'', PyStr ''Script.__str__'')]"

definition object_getattribute :: "(string \<times> pyval) list \<Rightarrow> string \<Rightarrow> error + pyval" where
  "object_getattribute attrs attr =
     (case map_of attrs attr of
        Some v \<Rightarrow> Inr v
      | None \<Rightarrow> Inl (AttributeError attr))"

definition Script_getattr ::
  "(string \<times> pyval) list \<Rightarrow> world \<Rightarrow> 'a script_obj_scheme \<Rightarrow> string \<Rightarrow> error + pyval" where
  "Script_getattr inherited w self attr =
     (case object_getattribute (instance_dict self @ Script_class_dict @ inherited) attr of
        Inr v \<Rightarrow> Inr v
      | Inl e \<Rightarrow> Inr (Script_getattr_hook w self attr))"

subsection \<open>The class \<^verbatim>\<open>Function\<close>\<close>

text \<open>Lines 101 to 108: the directory and the name without extension of the module's file.\<close>

definition basename_noext :: "string \<Rightarrow> string" where
  "basename_noext file = fst (path_splitext (snd (path_split file)))"

definition module_path :: "runtime \<Rightarrow> pymodule \<Rightarrow> string \<times> string option" where
  "module_path R rootmod =
     (case mod_file rootmod of
        Some file \<Rightarrow> (abspath R (fst (path_split file)), Some (basename_noext file))
      | None \<Rightarrow> (abspath R ''.'', None))"

text \<open>Python's truth value of \<^verbatim>\<open>impt\<close>: a string that is not empty.\<close>

fun truthy :: "string option \<Rightarrow> bool" where
  "truthy None = False"
| "truthy (Some s) = (s \<noteq> [])"

text \<open>Lines 110 to 112: the function object after the constructor has looked at it.\<close>

definition clobber :: "string option \<Rightarrow> 'b pyfunc \<Rightarrow> 'b pyfunc" where
  "clobber impt func =
     (if truthy impt \<and> fn_module func = ''__main__''
      then func\<lparr>fn_module := the impt\<rparr> else func)"

text \<open>
  Lines 114 to 134: the local variables \<^verbatim>\<open>imp1\<close>, \<^verbatim>\<open>imp2\<close>, \<^verbatim>\<open>bimp1\<close>, \<^verbatim>\<open>bimp2\<close> and
  \<^verbatim>\<open>imppath2\<close>. A variable that no branch taken has assigned is \<open>Unbound\<close>; a variable
  assigned \<^verbatim>\<open>None\<close> is \<open>Bound None\<close>.
\<close>

datatype 'a local = Unbound | Bound 'a

record locals =
  imp1 :: "string option local"
  imp2 :: "string option local"
  bimp1 :: "string option local"
  bimp2 :: "string option local"
  imppath2 :: "string option local"

definition function_imports ::
  "runtime \<Rightarrow> string option \<Rightarrow> string \<Rightarrow> string \<Rightarrow> string \<Rightarrow> locals" where
  "function_imports R impt parent fname imppath =
     (if truthy impt then
        (if the impt \<noteq> parent then
           \<lparr>imp1 = Bound (Some (''from '' @ the impt @ '' import '' @ fname)),
            imp2 = Bound (Some (''from '' @ the impt @ '' import *'')),
            bimp1 = Bound (Some (''from '' @ parent @ '' import '' @ fname)),
            bimp2 = Bound (Some (''from '' @ parent @ '' import *'')),
            imppath2 = Bound (Some (abspath R (path_join R imppath
                         (replicate (count_list parent (CHR ''.'')) ''..''))))\<rparr>
         else
           \<lparr>imp1 = Bound (Some (''from '' @ the impt @ '' import '' @ fname)),
            imp2 = Bound (Some (''from '' @ the impt @ '' import *'')),
            bimp1 = Bound None, bimp2 = Unbound, imppath2 = Unbound\<rparr>)
      else if parent \<noteq> fname \<and> parent \<noteq> ''__main__'' then
        \<lparr>imp1 = Bound (Some (''from '' @ parent @ '' import '' @ fname)),
         imp2 = Bound (Some (''from '' @ parent @ '' import *'')),
         bimp1 = Unbound, bimp2 = Unbound, imppath2 = Unbound\<rparr>
      else
        \<lparr>imp1 = Bound (Some (''import '' @ fname)), imp2 = Bound None,
         bimp1 = Unbound, bimp2 = Unbound, imppath2 = Unbound\<rparr>)"

text \<open>Reading a local variable; \<^verbatim>\<open>'{}'.format(v)\<close> prints \<^verbatim>\<open>None\<close> as \<^verbatim>\<open>None\<close>.\<close>

definition read_local :: "string \<Rightarrow> 'a local \<Rightarrow> error + 'a" where
  "read_local name v =
     (case v of Unbound \<Rightarrow> Inl (UnboundLocalError name) | Bound x \<Rightarrow> Inr x)"

fun fmt :: "string option local \<Rightarrow> string" where
  "fmt (Bound (Some s)) = s"
| "fmt v = ''None''"

definition text_lines :: "string list \<Rightarrow> string" where
  "text_lines ls = concat (map (\<lambda>l. l @ nl) ls)"

text \<open>
  Lines 136 to 175: \<^verbatim>\<open>if bimp1:\<close> reads the variable \<^verbatim>\<open>bimp1\<close>, which raises
  \<^verbatim>\<open>UnboundLocalError\<close> when no branch has assigned it; then one of the two templates
  is filled in and indented.
\<close>

definition modstr :: "runtime \<Rightarrow> string \<Rightarrow> locals \<Rightarrow> error + string" where
  "modstr R imppath l =
     (case read_local ''bimp1'' (bimp1 l) of
        Inl e \<Rightarrow> Inl e
      | Inr b \<Rightarrow>
          if truthy b then
            Inr (indent R (text_lines
              [''sys.path.append('' @ quote @ imppath @ quote @ '')'',
               ''try:'',
               ''    try:'',
               ''        '' @ fmt (imp1 l),
               ''    except SystemError:'',
               ''        sys.path.append('' @ quote @ fmt (imppath2 l) @ quote @ '')'',
               ''        try:'',
               ''            '' @ fmt (bimp1 l),
               ''        except ImportError:'',
               ''            pass'',
               ''except ImportError:'',
               ''    pass'',
               ''try:'',
               ''    try:'',
               ''        '' @ fmt (imp2 l),
               ''    except SystemError:'',
               ''        try:'',
               ''            '' @ fmt (bimp2 l),
               ''        except ImportError:'',
               ''            pass'',
               ''except ImportError:'',
               ''    pass'']) ''    '')
          else
            Inr (indent R (text_lines
              [''sys.path.append('' @ quote @ imppath @ quote @ '')'',
               ''try:'',
               ''    '' @ fmt (imp1 l),
               ''except ImportError:'',
               ''    pass'',
               ''try:'',
               ''    '' @ fmt (imp2 l),
               ''except ImportError:'',
               ''    pass'']) ''    ''))"

text \<open>
  Lines 180 to 196: the entries of \<^verbatim>\<open>imports\<close> are gathered. The caller's argument
  becomes a list unless it is a tuple already; then every module among the globals whose
  name is \<^verbatim>\<open>__main__\<close> or does not start with two underscores is appended, which a tuple
  does not allow (\<^verbatim>\<open>AttributeError\<close>); then the modules that are members of the
  function's module are added with \<^verbatim>\<open>+=\<close>, which a tuple does not allow either
  (\<^verbatim>\<open>TypeError\<close>).
\<close>

definition hint_entries :: "hints \<Rightarrow> bool \<times> imp list" where
  "hint_entries h =
     (case h of
        HintsNone \<Rightarrow> (False, [])
      | HintStr s \<Rightarrow> (False, if s = [] then [] else [ImpStr s])
      | HintList l \<Rightarrow> (False, l)
      | HintTuple l \<Rightarrow> (l \<noteq> [], l))"

definition gather_imports :: "runtime \<Rightarrow> pymodule \<Rightarrow> hints \<Rightarrow> error + imp list" where
  "gather_imports R rootmod h =
     (case hint_entries h of (is_tuple, given) \<Rightarrow>
        let from_globals = map (\<lambda>(name, modname). ImpTuple name modname)
              (filter (\<lambda>(name, modname). name = ''__main__'' \<or> \<not> startswith name ''__'')
                 (module_globals R));
            from_root = map (\<lambda>(k, v). ImpTuple k v)
              (filter (\<lambda>(k, v). \<not> startswith k ''__'') (mod_members rootmod))
        in if is_tuple \<and> from_globals \<noteq> []
           then Inl (AttributeError ''append'')
           else if mod_file rootmod \<noteq> None
           then (if is_tuple then Inl (TypeError ''can only concatenate tuple to tuple'')
                 else Inr (given @ from_globals @ from_root))
           else Inr (given @ from_globals))"

text \<open>
  Line 198 with \<^verbatim>\<open>_sort_imports\<close>: duplicates are dropped by \<^verbatim>\<open>set\<close>, and the list is
  sorted by the second component of a pair and by a string itself.
\<close>

fun sort_imports :: "imp \<Rightarrow> string" where
  "sort_imports (ImpTuple iname name) = name"
| "sort_imports (ImpStr x) = x"

definition sorted_imports :: "runtime \<Rightarrow> imp list \<Rightarrow> imp list" where
  "sorted_imports R imports = sort_key sort_imports (set_imps R imports)"

text \<open>
  Lines 202 to 253, the body of the loop for one entry: \<open>None\<close> is \<^verbatim>\<open>continue\<close>,
  \<open>Some s\<close> appends \<open>s\<close> to \<^verbatim>\<open>filtered_imports\<close>.
\<close>

definition ignore_list :: "string list" where
  "ignore_list = [''os'', ''sys'', ''dill'', ''pickle'']"

definition guarded :: "string \<Rightarrow> string" where
  "guarded stmt = ''try:'' @ nl @ ''    '' @ stmt @ nl @ ''except ImportError:'' @ nl @ ''    pass'' @ nl"

fun filter_import :: "imp \<Rightarrow> string option" where
  "filter_import (ImpTuple iname name) =
     (let names = str_split (CHR ''.'') name
      in if iname \<in> set ignore_list then None
         else if startswith name ''@'' \<or> startswith iname ''@'' then None
         else if iname \<noteq> name then
           (if length names > 1 then
              (if str_join ''.'' (tl names) \<noteq> iname
               then Some (guarded (''from '' @ str_join ''.'' (butlast names) @ '' import '' @
                                   last names @ '' as '' @ iname))
               else Some (guarded (''from '' @ hd names @ '' import '' @ str_join ''.'' (tl names))))
            else Some (guarded (''import '' @ name @ '' as '' @ iname)))
         else Some (guarded (''import '' @ name)))"
| "filter_import (ImpStr imp) =
     (if imp \<in> set ignore_list then None
      else if startswith imp ''import'' \<or> startswith imp ''from''
      then Some (''try:'' @ nl @ ''    '' @ rstrip imp @ nl @ ''except ImportError:'' @ nl @ ''    pass'')
      else if startswith imp ''@'' then None
      else Some (guarded (''import '' @ imp)))"

fun filter_imports :: "imp list \<Rightarrow> string list \<Rightarrow> string list" where
  "filter_imports [] filtered_imports = filtered_imports"
| "filter_imports (imp # imports) filtered_imports =
     (case filter_import imp of
        None \<Rightarrow> filter_imports imports filtered_imports
      | Some s \<Rightarrow> filter_imports imports (filtered_imports @ [s]))"

text \<open>Line 256: the block of imports of the driver script.\<close>

definition rendered_imports :: "runtime \<Rightarrow> imp list \<Rightarrow> string list" where
  "rendered_imports R imports = set_strs R (filter_imports (sorted_imports R imports) [])"

definition impts :: "runtime \<Rightarrow> imp list \<Rightarrow> string" where
  "impts R imports = indent R (str_join nl (rendered_imports R imports)) ''    ''"

text \<open>
  The object: the fields of a \<^verbatim>\<open>Script\<close> and \<^verbatim>\<open>function\<close>, \<^verbatim>\<open>parent\<close>, \<^verbatim>\<open>args\<close>,
  \<^verbatim>\<open>pickle_file\<close> and \<^verbatim>\<open>outfile\<close>.
\<close>

record 'b function_obj = script_obj +
  self_function :: "'b pyfunc"
  self_parent :: string
  self_args :: pyval
  pickle_file :: string
  outfile :: string

text \<open>
  \<^verbatim>\<open>Function.__init__\<close>. The first component of the result is the caller's function
  object after the call, the second the constructed object or the exception.
  \<^verbatim>\<open>inspect.getmodule\<close> that finds no module makes \<^verbatim>\<open>rootmod.__name__\<close> raise
  \<^verbatim>\<open>AttributeError\<close>. The debug message of line 199 is not recorded.
\<close>

definition Function_init ::
  "runtime \<Rightarrow> string \<Rightarrow> 'b pyfunc \<Rightarrow> pyval \<Rightarrow> hints \<Rightarrow> string option \<Rightarrow> string option
     \<Rightarrow> 'b pyfunc \<times> (error + 'b function_obj)" where
  "Function_init R fname function fargs h pfile ofile =
     (case fn_rootmod function of
        None \<Rightarrow> (function, Inl (AttributeError ''__name__''))
      | Some rootmod \<Rightarrow>
          (case module_path R rootmod of (imppath, impt) \<Rightarrow>
             let function' = clobber impt function;
                 l = function_imports R impt (mod_name rootmod) (fn_name function') imppath
             in case modstr R imppath l of
                  Inl e \<Rightarrow> (function', Inl e)
                | Inr ms \<Rightarrow>
                    (case gather_imports R rootmod h of
                       Inl e \<Rightarrow> (function', Inl e)
                     | Inr imports \<Rightarrow>
                         let pf = (if truthy pfile then the pfile else fname @ ''.pickle.in'');
                             outf = (if truthy ofile then the ofile else fname @ ''.pickle.out'');
                             text = ''#!'' @ sys_executable R @ nl @
                                    FUNC_RUNNER R fname imppath ms (impts R imports) pf outf
                         in (function',
                             Inr \<lparr>script = text, file_name = abspath R fname, written = False,
                                  self_function = function', self_parent = mod_name rootmod,
                                  self_args = fargs,
                                  pickle_file = pf, outfile = outf\<rparr>))))"

text \<open>
  \<^verbatim>\<open>Function.write(overwrite)\<close>: the pickle file is opened for writing, which creates or
  empties it, and \<^verbatim>\<open>(function, args)\<close> is dumped into it; \<open>dump\<close> is the serialiser, which
  may raise. Then \<^verbatim>\<open>Script.write\<close> is called, and its value is dropped: the method has
  no \<^verbatim>\<open>return\<close>.
\<close>

definition Function_write ::
  "('b pyfunc \<times> pyval \<Rightarrow> error + string) \<Rightarrow> 'b function_obj \<Rightarrow> bool \<Rightarrow> world
     \<Rightarrow> world \<times> 'b function_obj \<times> (error + string option)" where
  "Function_write dump self overwrite w =
     (let w1 = logme_log (''Writing pickle file '' @ pickle_file self) ''debug'' w
      in case dump (self_function self, self_args self) of
           Inl e \<Rightarrow> (write_file (pickle_file self) [] w1, self, Inl e)
         | Inr bytes \<Rightarrow>
             (case Script_write self overwrite (write_file (pickle_file self) bytes w1) of
                (w2, self', r) \<Rightarrow> (w2, self', Inr None)))"

subsection \<open>Notions used in the statements\<close>

text \<open>
  An entry is blacklisted when one of the two membership tests of the filter applies to
  it: a string that is in \<^verbatim>\<open>ignore_list\<close>, or a pair whose first component is. The
  first component of a pair is the name the module is bound to (its alias).
\<close>

definition blacklisted :: "imp \<Rightarrow> bool" where
  "blacklisted i =
     (case i of ImpStr x \<Rightarrow> x \<in> set ignore_list | ImpTuple iname name \<Rightarrow> iname \<in> set ignore_list)"

fun imp_alias :: "imp \<Rightarrow> string" where
  "imp_alias (ImpTuple iname name) = iname"
| "imp_alias (ImpStr x) = x"

subsection \<open>Example inputs\<close>

text \<open>
  A runtime whose sets iterate in the order of first insertion; a function of a script
  run as \<^verbatim>\<open>__main__\<close>; the built-in \<^verbatim>\<open>len\<close>, whose module has no file; a script and a
  packaged function whose script files exist already.
\<close>

definition example_runtime :: runtime where
  "example_runtime =
     \<lparr>abspath = (\<lambda>p. if startswith p ''/'' then p else ''/work/'' @ p),
      path_join = (\<lambda>p ps. str_join ''/'' (p # ps)),
      sys_executable = ''/usr/bin/python3'',
      module_globals = [(''_os'', ''os''), (''_sys'', ''sys''), (''_inspect'', ''inspect''),
                        (''_pickle'', ''dill''), (''_run'', ''fyrd.run''),
                        (''_logme'', ''fyrd.logme'')],
      indent = (\<lambda>s prefix. str_join nl (map (\<lambda>l. prefix @ l) (str_split (CHR 0x0A) s))),
      FUNC_RUNNER = (\<lambda>name path modimpstr imports pickle_file out_file.
                       modimpstr @ nl @ imports @ nl @ pickle_file @ nl @ out_file),
      set_imps = remdups, set_strs = remdups\<rparr>"

definition main_func :: "unit pyfunc" where
  "main_func =
     \<lparr>fn_name = ''colmean'', fn_module = ''__main__'',
      fn_rootmod = Some \<lparr>mod_name = ''__main__'', mod_file = Some ''/home/user/analysis.py'',
                          mod_members = [(''np'', ''numpy'')]\<rparr>,
      fn_body = ()\<rparr>"

definition len_func :: "unit pyfunc" where
  "len_func =
     \<lparr>fn_name = ''len'', fn_module = ''builtins'',
      fn_rootmod = Some \<lparr>mod_name = ''builtins'', mod_file = None, mod_members = []\<rparr>,
      fn_body = ()\<rparr>"

definition example_script :: script_obj where
  "example_script = Script_init example_runtime ''job.sh'' ''echo hello''"

definition example_world :: world where
  "example_world = \<lparr>files = [''/work/job.sh'' \<mapsto> ''old''], logged = []\<rparr>"

definition example_function :: "unit function_obj" where
  "example_function =
     \<lparr>script = ''#!/usr/bin/python3'', file_name = ''/work/job'', written = False,
      self_function = main_func, self_parent = ''__main__'', self_args = PyNone,
      pickle_file = ''job.pickle.in'', outfile = ''job.pickle.out''\<rparr>"

definition job_world :: world where
  "job_world = \<lparr>files = [''/work/job'' \<mapsto> ''old''], logged = []\<rparr>"

definition example_dump :: "unit pyfunc \<times> pyval \<Rightarrow> error + string" where
  "example_dump x = Inr ''pickled''"

section \<open>Verification: the partitioning step\<close>

lemma cumsum_shift: "cumsum a (s # ss) = cumsum (a + s) (0 # ss)"
  by simp

lemma slices_chunks:
  "map (\<lambda>i. py_slice xs (cumsum a (0 # ss) ! i) (cumsum a (0 # ss) ! Suc i)) [0..<length ss]
     = chunks ss (drop a xs)"
proof (induction ss arbitrary: a)
  case Nil
  show ?case by simp
next
  case (Cons s ss)
  have split: "[0..<length (s # ss)] = 0 # map Suc [0..<length ss]"
    by (simp add: upt_conv_Cons map_Suc_upt del: upt_Suc)
  have head: "py_slice xs a (a + s) = take s (drop a xs)"
    by (simp add: py_slice_def)
  have tail: "map (\<lambda>i. py_slice xs (cumsum (a + s) (0 # ss) ! i) (cumsum (a + s) (0 # ss) ! Suc i))
                 [0..<length ss] = chunks ss (drop (a + s) xs)"
    by (rule Cons.IH)
  have "map (\<lambda>i. py_slice xs (cumsum a (0 # s # ss) ! i) (cumsum a (0 # s # ss) ! Suc i))
          [0..<length (s # ss)]
        = py_slice xs a (a + s) #
          map (\<lambda>i. py_slice xs (cumsum (a + s) (0 # ss) ! i) (cumsum (a + s) (0 # ss) ! Suc i))
            [0..<length ss]"
    unfolding split by (simp add: comp_def)
  also have "\<dots> = take s (drop a xs) # chunks ss (drop (a + s) xs)"
    by (simp only: head tail)
  also have "\<dots> = chunks (s # ss) (drop a xs)"
    by (simp add: add.commute)
  finally show ?case .
qed

lemma length_section_sizes: "0 < K \<Longrightarrow> length (section_sizes N K) = K"
  by (simp add: section_sizes_def Let_def less_imp_le)

lemma sum_section_sizes: "0 < K \<Longrightarrow> sum_list (section_sizes N K) = N"
proof -
  assume K: "0 < K"
  have "N mod K < K" using K by simp
  then have "sum_list (section_sizes N K) = (N mod K) * (N div K + 1) + (K - N mod K) * (N div K)"
    by (simp add: section_sizes_def Let_def sum_list_replicate)
  also have "\<dots> = N mod K + K * (N div K)"
    using \<open>N mod K < K\<close> by (simp add: algebra_simps diff_mult_distrib)
  also have "\<dots> = N" by simp
  finally show ?thesis .
qed

lemma sub_arys_chunks: "0 < K \<Longrightarrow> sub_arys xs K = chunks (section_sizes (length xs) K) xs"
  using slices_chunks [of xs 0 "section_sizes (length xs) K"]
  by (simp add: sub_arys_def Let_def length_section_sizes del: cumsum.simps)

lemma length_chunks: "length (chunks ss xs) = length ss"
  by (induction ss arbitrary: xs) simp_all

lemma concat_chunks: "concat (chunks ss xs) = take (sum_list ss) xs"
proof (induction ss arbitrary: xs)
  case Nil
  show ?case by simp
next
  case (Cons s ss)
  have "concat (chunks (s # ss) xs) = take s xs @ take (sum_list ss) (drop s xs)"
    by (simp add: Cons.IH)
  also have "\<dots> = take (s + sum_list ss) xs"
    by (simp add: take_add)
  finally show ?case by simp
qed

lemma lengths_chunks:
  "sum_list ss \<le> length xs \<Longrightarrow> map length (chunks ss xs) = ss"
  by (induction ss arbitrary: xs) (simp_all add: min_def)

lemma sub_arys_length: "length (sub_arys xs K) = K"
  by (simp add: sub_arys_def Let_def)

lemma sub_arys_concat: "0 < K \<Longrightarrow> concat (sub_arys xs K) = xs"
  by (simp add: sub_arys_chunks concat_chunks sum_section_sizes)

lemma sub_arys_lengths: "0 < K \<Longrightarrow> map length (sub_arys xs K) = section_sizes (length xs) K"
  by (simp add: sub_arys_chunks lengths_chunks sum_section_sizes)

lemma list_all_map_Series: "list_all is_Series (map Series ys)"
  by (induction ys) simp_all

lemma series_values_map_Series: "series_values \<circ> Series = id"
  by (rule ext) simp

lemma nrows_map_Series: "nrows \<circ> Series = length"
  by (rule ext) simp

lemma frames_not_all_Series: "ys \<noteq> [] \<Longrightarrow> \<not> list_all is_Series (map (Frame c) ys)"
  by (cases ys) simp_all

lemma list_all_map_Frame:
  "list_all (\<lambda>d. \<not> is_Series d \<and> ncols d = c) (map (Frame c) ys)"
  by (induction ys) simp_all

lemma frame_rows_map_Frame: "frame_rows \<circ> Frame c = id"
  by (rule ext) simp

lemma nrows_map_Frame: "nrows \<circ> Frame c = length"
  by (rule ext) simp

lemma hd_map_Frame: "ys \<noteq> [] \<Longrightarrow> ncols (hd (map (Frame c) ys)) = c"
  by (cases ys) simp_all

lemma sum_lengths_sub_arys: "0 < K \<Longrightarrow> sum_list (map length (sub_arys xs K)) = length xs"
  by (simp add: sub_arys_lengths sum_section_sizes)

lemma sub_arys_nonempty: "0 < K \<Longrightarrow> sub_arys xs K \<noteq> []"
  using sub_arys_length [of xs K] by auto

text \<open>
  Claim C2. For every positive section count \<open>K\<close> and every dataset \<open>D\<close>, the
  partitioning step of \<^verbatim>\<open>parapply\<close> (\<^verbatim>\<open>array_split\<close>) returns exactly \<open>K\<close> shards, their
  row counts sum to the row count of \<open>D\<close>, and \<^verbatim>\<open>concat\<close> of the shards along axis 0, in
  shard order, is \<open>D\<close> again.
\<close>

theorem C2_partition_roundtrip:
  assumes "0 < K"
  shows "\<exists>shards. array_split pandas_lib D K = Inr shards \<and> length shards = nat K \<and>
           sum_list (map nrows shards) = nrows D \<and> pd_concat pandas_lib shards 0 = Inr D"
proof (cases D)
  case (Series xs)
  let ?sh = "map Series (sub_arys xs (nat K))"
  have pos: "0 < nat K" using assms by simp
  have 1: "array_split pandas_lib D K = Inr ?sh"
    using assms by (simp add: pandas_lib_def Series array_split_list_def)
  have 2: "length ?sh = nat K" by (simp add: sub_arys_length)
  have 3: "sum_list (map nrows ?sh) = nrows D"
    by (simp add: Series nrows_map_Series sum_lengths_sub_arys [OF pos])
  have ne: "?sh \<noteq> []" using sub_arys_nonempty [OF pos, of xs] by simp
  have 4: "pd_concat pandas_lib ?sh 0 = Inr D"
    using ne by (simp add: pandas_lib_def pandas_concat_def list_all_map_Series
        series_values_map_Series sub_arys_concat [OF pos] Series)
  from 1 2 3 4 show ?thesis by blast
next
  case (Frame c rows)
  let ?sh = "map (Frame c) (sub_arys rows (nat K))"
  have pos: "0 < nat K" using assms by simp
  have 1: "array_split pandas_lib D K = Inr ?sh"
    using assms by (simp add: pandas_lib_def Frame array_split_list_def)
  have 2: "length ?sh = nat K" by (simp add: sub_arys_length)
  have 3: "sum_list (map nrows ?sh) = nrows D"
    by (simp add: Frame nrows_map_Frame sum_lengths_sub_arys [OF pos])
  have ne: "sub_arys rows (nat K) \<noteq> []" by (rule sub_arys_nonempty [OF pos])
  have 4: "pd_concat pandas_lib ?sh 0 = Inr D"
    using ne by (simp add: pandas_lib_def pandas_concat_def frames_not_all_Series
        hd_map_Frame list_all_map_Frame frame_rows_map_Frame sub_arys_concat [OF pos] Frame)
  from 1 2 3 4 show ?thesis by blast
qed

theorem C2_partition_roundtrip_witness:
  "array_split pandas_lib (Frame 1 [[Some 1], [Some 2], [Some 3]]) 2
     = Inr [Frame 1 [[Some 1], [Some 2]], Frame 1 [[Some 3]]] \<and>
   pd_concat pandas_lib [Frame 1 [[Some 1], [Some 2]], Frame 1 [[Some 3]]] 0
     = Inr (Frame 1 [[Some 1], [Some 2], [Some 3]])"
  using C2_partition_roundtrip [of 2 "Frame 1 [[Some 1], [Some 2], [Some 3]]"]
  by (simp add: pandas_lib_def pandas_concat_def array_split_list_def sub_arys_def
      section_sizes_def py_slice_def Let_def upt_conv_Cons)

section \<open>Verification: the check of the job count and the collection of results\<close>

lemma parapply_submit_not_int:
  "\<not> isinstance_int (arg_jobs a) \<Longrightarrow>
   parapply_submit L C a = ([], Inl (ValueError ''Jobs argument must be an integer.''))"
  by (simp add: parapply_submit_def split: prod.splits)

lemma parapply_submit_int:
  "isinstance_int (arg_jobs a) \<Longrightarrow>
   \<exists>tr. fst (parapply_submit L C a) = Partition (int_value (arg_jobs a)) # tr"
  by (simp add: parapply_submit_def Let_def split: prod.splits sum.splits option.splits)

lemma parapply_submit_split_fails:
  "isinstance_int (arg_jobs a) \<Longrightarrow> array_split L (arg_df a) (int_value (arg_jobs a)) = Inl e \<Longrightarrow>
   parapply_submit L C a = ([Partition (int_value (arg_jobs a))], Inl e)"
  by (simp add: parapply_submit_def Let_def split: prod.splits)

lemma parapply_trace_prefix:
  "\<exists>tr. fst (parapply L C a) = fst (parapply_submit L C a) @ tr"
  by (simp add: parapply_def split: prod.splits sum.splits)

lemma parapply_submit_error:
  "parapply_submit L C a = (tr, Inl e) \<Longrightarrow> parapply L C a = (tr, Inl e)"
  by (simp add: parapply_def)

lemma numpy_array_split_nonpositive:
  "n \<le> 0 \<Longrightarrow> numpy_array_split d n = Inl (ValueError ''number sections must be larger than 0.'')"
  by (cases d) (simp_all add: array_split_list_def)

text \<open>
  Claim C1, as amended. The check of \<^verbatim>\<open>jobs\<close> rejects exactly the values that are not
  integers: for those \<^verbatim>\<open>parapply\<close> raises \<^verbatim>\<open>ValueError\<close> with nothing partitioned
  and nothing submitted. Every integer passes the check, zero and the negative ones
  included, and reaches \<^verbatim>\<open>array_split\<close>; an exception of \<^verbatim>\<open>array_split\<close> ends the call
  before any job is submitted, and numpy's \<^verbatim>\<open>array_split\<close> raises \<^verbatim>\<open>ValueError\<close> for
  every count \<open>\<le> 0\<close>.
\<close>

theorem C1_jobs_check:
  "(\<not> isinstance_int (arg_jobs a) \<longrightarrow>
      parapply L C a = ([], Inl (ValueError ''Jobs argument must be an integer.''))) \<and>
   (isinstance_int (arg_jobs a) \<longrightarrow>
      (\<exists>tr. fst (parapply L C a) = Partition (int_value (arg_jobs a)) # tr)) \<and>
   (isinstance_int (arg_jobs a) \<and> array_split L (arg_df a) (int_value (arg_jobs a)) = Inl e \<longrightarrow>
      parapply L C a = ([Partition (int_value (arg_jobs a))], Inl e)) \<and>
   (n \<le> 0 \<longrightarrow>
      array_split pandas_lib d n = Inl (ValueError ''number sections must be larger than 0.''))"
proof (intro conjI impI)
  assume "\<not> isinstance_int (arg_jobs a)"
  then show "parapply L C a = ([], Inl (ValueError ''Jobs argument must be an integer.''))"
    by (simp add: parapply_submit_error [OF parapply_submit_not_int])
next
  assume "isinstance_int (arg_jobs a)"
  then have "\<exists>t1. fst (parapply_submit L C a) = Partition (int_value (arg_jobs a)) # t1"
    by (rule parapply_submit_int)
  moreover have "\<exists>t2. fst (parapply L C a) = fst (parapply_submit L C a) @ t2"
    by (rule parapply_trace_prefix)
  ultimately show "\<exists>tr. fst (parapply L C a) = Partition (int_value (arg_jobs a)) # tr"
    by auto
next
  assume "isinstance_int (arg_jobs a) \<and> array_split L (arg_df a) (int_value (arg_jobs a)) = Inl e"
  then show "parapply L C a = ([Partition (int_value (arg_jobs a))], Inl e)"
    by (simp add: parapply_submit_error [OF parapply_submit_split_fails])
next
  assume "n \<le> 0"
  then show "array_split pandas_lib d n = Inl (ValueError ''number sections must be larger than 0.'')"
    by (simp add: pandas_lib_def numpy_array_split_nonpositive)
qed

theorem C1_jobs_check_witness:
  "parapply pandas_lib (local_cluster pandas_lib (\<lambda>n. None)) (example_call\<lparr>arg_jobs := PyStr ''4''\<rparr>)
     = ([], Inl (ValueError ''Jobs argument must be an integer.'')) \<and>
   parapply pandas_lib (local_cluster pandas_lib (\<lambda>n. None)) (example_call\<lparr>arg_jobs := PyInt (- 2)\<rparr>)
     = ([Partition (- 2)], Inl (ValueError ''number sections must be larger than 0.''))"
proof -
  let ?C = "local_cluster pandas_lib (\<lambda>n. None)"
  note str = C1_jobs_check [where a = "example_call\<lparr>arg_jobs := PyStr ''4''\<rparr>"
      and L = pandas_lib and C = ?C]
  note neg = C1_jobs_check [where a = "example_call\<lparr>arg_jobs := PyInt (- 2)\<rparr>"
      and L = pandas_lib and C = ?C
      and e = "ValueError ''number sections must be larger than 0.''"
      and n = "- 2" and d = example_df]
  from str have 1: "parapply pandas_lib ?C (example_call\<lparr>arg_jobs := PyStr ''4''\<rparr>)
     = ([], Inl (ValueError ''Jobs argument must be an integer.''))"
    by simp
  from neg have 2: "parapply pandas_lib ?C (example_call\<lparr>arg_jobs := PyInt (- 2)\<rparr>)
     = ([Partition (- 2)], Inl (ValueError ''number sections must be larger than 0.''))"
    by (simp add: example_call_def)
  from 1 2 show ?thesis ..
qed

text \<open>
  The claim C1 as stated fails at \<^verbatim>\<open>jobs = 0\<close>: the value is an integer, so the check
  lets it through; \<^verbatim>\<open>array_split\<close> is called, and the \<^verbatim>\<open>ValueError\<close> is the one of
  \<^verbatim>\<open>array_split\<close>.
\<close>

theorem C1_counterexample:
  "isinstance_int (PyInt 0) \<and>
   parapply pandas_lib (local_cluster pandas_lib (\<lambda>n. None)) (example_call\<lparr>arg_jobs := PyInt 0\<rparr>)
     = ([Partition 0], Inl (ValueError ''number sections must be larger than 0.''))"
  by (simp add: parapply_def parapply_submit_def example_call_def example_df_def pandas_lib_def
      local_cluster_def array_split_list_def)

lemma upt_head: "[n..<Suc (n + m)] = n # [Suc n..<Suc (n + m)]"
  by (simp add: upt_conv_Cons del: upt_Suc)

lemma collect_results_ok:
  "list_all2 (\<lambda>out r. get_result C out = Inr r) outs results \<Longrightarrow>
   collect_results C n outs = (map Collect [n..<n + length outs], Inr results)"
proof (induction outs results arbitrary: n rule: list_all2_induct)
  case Nil
  show ?case by simp
next
  case (Cons out outs r results)
  have "[n..<n + length (out # outs)] = n # [Suc n..<Suc n + length outs]"
    using upt_head [of n "length outs"] by simp
  then show ?case using Cons.hyps(1) Cons.IH [of "Suc n"] by (simp del: upt_Suc)
qed

lemma collect_results_fail:
  "i < length outs \<Longrightarrow> get_result C (outs ! i) = Inl e \<Longrightarrow>
   \<forall>j<i. \<exists>r. get_result C (outs ! j) = Inr r \<Longrightarrow>
   collect_results C n outs
     = (map Collect [n..<n + Suc i] @ (if is_IOError e then [get_failed] else []), Inl e)"
proof (induction outs arbitrary: i n)
  case Nil
  then show ?case by simp
next
  case (Cons out outs)
  show ?case
  proof (cases i)
    case 0
    with Cons.prems show ?thesis by (simp del: upt_Suc add: upt_conv_Cons)
  next
    case (Suc k)
    from Cons.prems(3) Suc obtain r where r: "get_result C out = Inr r" by fastforce
    have k: "k < length outs" using Cons.prems(1) Suc by simp
    have fail: "get_result C (outs ! k) = Inl e" using Cons.prems(2) Suc by simp
    have before: "\<forall>j<k. \<exists>r. get_result C (outs ! j) = Inr r"
    proof (intro allI impI)
      fix j assume "j < k"
      then have "Suc j < i" using Suc by simp
      with Cons.prems(3) have "\<exists>r. get_result C ((out # outs) ! Suc j) = Inr r" by blast
      then show "\<exists>r. get_result C (outs ! j) = Inr r" by simp
    qed
    have "[n..<n + Suc i] = n # [Suc n..<Suc n + Suc k]"
      using Suc upt_head [of n i] by simp
    then show ?thesis using r Cons.IH [OF k fail before, of "Suc n"] by (simp del: upt_Suc)
  qed
qed

text \<open>
  Claim C4. Once the jobs are submitted, \<^verbatim>\<open>parapply\<close> waits for the results in shard
  order. If the result of shard \<open>i\<close> is the first that cannot be fetched and the failure is
  an \<^verbatim>\<open>IOError\<close>, the shards \<open>0\<close> to \<open>i\<close> have been waited for in this order, the failure
  is logged at level critical, no later shard is waited for, nothing is merged and the
  caller gets the \<^verbatim>\<open>IOError\<close>, not a result. If every result arrives, all shards are
  waited for in order before the merge.
\<close>

theorem C4_ordered_collection:
  assumes submitted: "parapply_submit L C a = (t1, Inr (outs, pandas_kwds))"
  shows "(\<forall>i msg. i < length outs \<and> (\<forall>j<i. \<exists>r. get_result C (outs ! j) = Inr r) \<and>
                   get_result C (outs ! i) = Inl (IOError msg) \<longrightarrow>
            parapply L C a = (t1 @ map Collect [0..<Suc i] @ [get_failed], Inl (IOError msg))) \<and>
         (\<forall>results. list_all2 (\<lambda>out r. get_result C out = Inr r) outs results \<longrightarrow>
            (\<exists>t3 res. parapply L C a
               = (t1 @ map Collect [0..<length outs] @ Concat (arg_merge_axis a) # t3, res)))"
proof (intro conjI allI impI)
  fix i msg
  assume "i < length outs \<and> (\<forall>j<i. \<exists>r. get_result C (outs ! j) = Inr r) \<and>
          get_result C (outs ! i) = Inl (IOError msg)"
  then have "collect_results C 0 outs
       = (map Collect [0..<0 + Suc i] @ (if is_IOError (IOError msg) then [get_failed] else []),
          Inl (IOError msg))"
    by (intro collect_results_fail) simp_all
  then show "parapply L C a = (t1 @ map Collect [0..<Suc i] @ [get_failed], Inl (IOError msg))"
    by (simp add: parapply_def submitted del: upt_Suc)
next
  fix results
  assume "list_all2 (\<lambda>out r. get_result C out = Inr r) outs results"
  from collect_results_ok [OF this, of 0]
  have "collect_results C 0 outs = (map Collect [0..<length outs], Inr results)" by simp
  then show "\<exists>t3 res. parapply L C a
               = (t1 @ map Collect [0..<length outs] @ Concat (arg_merge_axis a) # t3, res)"
    by (simp add: parapply_def submitted split: sum.splits)
qed

theorem C4_ordered_collection_witness:
  "parapply pandas_lib (local_cluster pandas_lib crash_second) example_call
     = ([Partition 2, SetGlobal ''analysis'' ''analysis'', SetGlobal ''np'' ''numpy'',
         Submit ''parapply_1_of_2'', Submit ''parapply_2_of_2'',
         Collect 0, Collect 1, get_failed],
        Inl (IOError ''crash''))"
proof -
  let ?C = "local_cluster pandas_lib crash_second"
  let ?kw = "[(''clean_files'', PyBool True), (''clean_outputs'', PyBool True)]"
  let ?j1 = "make_job example_call ?kw [] 1 (Frame 1 [[Some 0], [Some 0]])"
  let ?j2 = "make_job example_call ?kw [] 2 (Frame 1 [[Some 3]])"
  have submitted:
    "parapply_submit pandas_lib ?C example_call
       = ([Partition 2, SetGlobal ''analysis'' ''analysis'', SetGlobal ''np'' ''numpy'',
           Submit ''parapply_1_of_2'', Submit ''parapply_2_of_2''],
          Inr ([?j1, ?j2], []))"
    by (simp add: parapply_submit_def make_job_def example_call_def example_func_def
        example_df_def pandas_lib_def local_cluster_def array_split_list_def sub_arys_def
        section_sizes_def py_slice_def Let_def dict_setdefault_def startswith_def str_int_def
        upt_conv_Cons)
  have prem: "1 < length [?j1, ?j2] \<and>
      (\<forall>j<1. \<exists>r. get_result ?C ([?j1, ?j2] ! j) = Inr r) \<and>
      get_result ?C ([?j1, ?j2] ! 1) = Inl (IOError ''crash'')"
    by (simp add: local_cluster_def crash_second_def run_job_def sub_func_def run_apply_def
        pandas_lib_def pandas_apply_def apply_kwds_def make_job_def example_call_def str_int_def)
  from C4_ordered_collection [OF submitted, THEN conjunct1, rule_format, OF prem]
  show ?thesis by (simp add: upt_conv_Cons)
qed

section \<open>Verification: the summary mode\<close>

























section \<open>Verification: \<^verbatim>\<open>Script\<close>\<close>

text \<open>
  Claim C10. Reading an attribute of a \<^verbatim>\<open>Script\<close> never raises; an attribute that
  neither the instance nor the class nor \<^verbatim>\<open>object\<close> defines reads as \<^verbatim>\<open>None\<close>, except
  \<^verbatim>\<open>exists\<close>, which reads as the existence of the backing file.
\<close>

theorem C10_getattr_default:
  "(\<exists>v. Script_getattr inherited w self attr = Inr v) \<and>
   (map_of (instance_dict self @ Script_class_dict @ inherited) attr = None \<longrightarrow>
      Script_getattr inherited w self attr
        = Inr (if attr = ''exists'' then PyBool (path_exists w (file_name self)) else PyNone))"
  by (cases "map_of (instance_dict self @ Script_class_dict @ inherited) attr")
    (simp_all add: Script_getattr_def object_getattribute_def Script_getattr_hook_def
      del: map_of_append)

theorem C10_getattr_default_witness:
  "Script_getattr [] example_world example_script ''writen'' = Inr PyNone \<and>
   Script_getattr [] example_world example_script ''exists'' = Inr (PyBool True)"
proof -
  have 1: "map_of (instance_dict example_script @ Script_class_dict @ []) ''writen'' = None"
    by (simp add: instance_dict_def Script_class_dict_def example_script_def Script_init_def)
  have 2: "map_of (instance_dict example_script @ Script_class_dict @ []) ''exists'' = None"
    by (simp add: instance_dict_def Script_class_dict_def example_script_def Script_init_def)
  have e: "path_exists example_world (file_name example_script)"
    by (simp add: path_exists_def example_world_def example_script_def Script_init_def
        example_runtime_def startswith_def)
  from C10_getattr_default [of "[]" example_world example_script "''writen''", THEN conjunct2, THEN mp, OF 1]
    C10_getattr_default [of "[]" example_world example_script "''exists''", THEN conjunct2, THEN mp, OF 2]
    e
  show ?thesis by simp
qed

text \<open>
  Claim C7, as amended. \<^verbatim>\<open>Script.write\<close> with \<^verbatim>\<open>overwrite\<close> false on an existing path
  changes no file, leaves the object as it is and returns \<^verbatim>\<open>None\<close>; otherwise it writes
  the script text with a final newline, sets \<^verbatim>\<open>written\<close> and returns the path.
  \<^verbatim>\<open>Function.write\<close> writes the pickle file in every case, and then treats the script
  file by the same rule: with \<^verbatim>\<open>overwrite\<close> false on an existing script path only the
  pickle file changes and \<^verbatim>\<open>written\<close> keeps its value; otherwise the script file is
  written too and \<^verbatim>\<open>written\<close> is set.
\<close>

theorem C7_write:
  "(\<not> overwrite \<and> path_exists w (file_name self) \<longrightarrow>
      files (fst (Script_write self overwrite w)) = files w \<and>
      fst (snd (Script_write self overwrite w)) = self \<and>
      snd (snd (Script_write self overwrite w)) = None) \<and>
   (overwrite \<or> \<not> path_exists w (file_name self) \<longrightarrow>
      files (fst (Script_write self overwrite w)) = (files w)(file_name self \<mapsto> script self @ nl) \<and>
      fst (snd (Script_write self overwrite w)) = self\<lparr>written := True\<rparr> \<and>
      snd (snd (Script_write self overwrite w)) = Some (file_name self)) \<and>
   (dump (self_function f, self_args f) = Inr bytes \<longrightarrow>
      (\<not> overwrite \<and> (path_exists w (file_name f) \<or> file_name f = pickle_file f) \<longrightarrow>
         files (fst (Function_write dump f overwrite w)) = (files w)(pickle_file f \<mapsto> bytes) \<and>
         fst (snd (Function_write dump f overwrite w)) = f) \<and>
      (overwrite \<or> \<not> (path_exists w (file_name f) \<or> file_name f = pickle_file f) \<longrightarrow>
         files (fst (Function_write dump f overwrite w))
           = (files w)(pickle_file f \<mapsto> bytes, file_name f \<mapsto> script f @ nl) \<and>
         fst (snd (Function_write dump f overwrite w)) = f\<lparr>written := True\<rparr>))"
  by (auto simp: Script_write_def Function_write_def Let_def path_exists_def write_file_def
      logme_log_def split: prod.splits)

text \<open>
  The claim C7 as stated fails for \<^verbatim>\<open>Function\<close>: with \<^verbatim>\<open>overwrite\<close> false and the
  script path present, the pickle file is created all the same; and with \<^verbatim>\<open>overwrite\<close>
  true the method returns \<^verbatim>\<open>None\<close>, not the path.
\<close>

theorem C7_counterexample:
  "path_exists job_world (file_name example_function) \<and>
   files job_world ''job.pickle.in'' = None \<and>
   files (fst (Function_write example_dump example_function False job_world)) ''job.pickle.in''
     = Some ''pickled'' \<and>
   snd (snd (Function_write example_dump example_function True job_world)) = Inr None"
  by (simp add: Function_write_def Script_write_def Let_def example_function_def job_world_def
      example_dump_def path_exists_def write_file_def logme_log_def split: prod.splits)

theorem C7_write_witness:
  "files (fst (Script_write example_script False example_world)) = files example_world \<and>
   fst (snd (Script_write example_script False example_world)) = example_script \<and>
   snd (snd (Script_write example_script False example_world)) = None \<and>
   snd (snd (Script_write example_script True example_world)) = Some ''/work/job.sh'' \<and>
   files (fst (Function_write example_dump example_function False job_world))
     = (files job_world)(''job.pickle.in'' \<mapsto> ''pickled'') \<and>
   fst (snd (Function_write example_dump example_function True job_world))
     = example_function\<lparr>written := True\<rparr>"
proof -
  have fn: "file_name example_script = ''/work/job.sh''"
    by (simp add: example_script_def Script_init_def example_runtime_def startswith_def)
  have e: "path_exists example_world (file_name example_script)"
    by (simp add: fn path_exists_def example_world_def)
  have d: "example_dump (self_function example_function, self_args example_function) = Inr ''pickled''"
    by (simp add: example_dump_def)
  have e2: "path_exists job_world (file_name example_function)"
    by (simp add: path_exists_def job_world_def example_function_def)
  have pf: "pickle_file example_function = ''job.pickle.in''"
    by (simp add: example_function_def)
  note skip = C7_write [where overwrite = False and self = example_script and w = example_world
      and dump = example_dump and f = example_function and bytes = "''pickled''"]
  note do = C7_write [where overwrite = True and self = example_script and w = example_world
      and dump = example_dump and f = example_function and bytes = "''pickled''"]
  note fskip = C7_write [where overwrite = False and self = example_script and w = job_world
      and dump = example_dump and f = example_function and bytes = "''pickled''"]
  note fdo = C7_write [where overwrite = True and self = example_script and w = job_world
      and dump = example_dump and f = example_function and bytes = "''pickled''"]
  from skip e have 1: "files (fst (Script_write example_script False example_world)) = files example_world \<and>
      fst (snd (Script_write example_script False example_world)) = example_script \<and>
      snd (snd (Script_write example_script False example_world)) = None" by simp
  from do have 2: "snd (snd (Script_write example_script True example_world)) = Some ''/work/job.sh''"
    by (simp add: fn)
  from fskip d e2 have 3: "files (fst (Function_write example_dump example_function False job_world))
     = (files job_world)(''job.pickle.in'' \<mapsto> ''pickled'')" by (simp add: pf)
  from fdo d have 4: "fst (snd (Function_write example_dump example_function True job_world))
     = example_function\<lparr>written := True\<rparr>" by simp
  from 1 2 3 4 show ?thesis by simp
qed

section \<open>Verification: the constructor of \<^verbatim>\<open>Function\<close>\<close>

lemma modstr_unbound:
  "\<not> truthy impt \<Longrightarrow>
   modstr R imppath (function_imports R impt par fname imppath) = Inl (UnboundLocalError ''bimp1'')"
  by (simp add: modstr_def function_imports_def read_local_def)

lemma Function_init_no_file:
  "fn_rootmod f = Some m \<Longrightarrow> mod_file m = None \<Longrightarrow>
   Function_init R fname f a h pfile ofile = (f, Inl (UnboundLocalError ''bimp1''))"
  by (simp add: Function_init_def module_path_def clobber_def modstr_unbound Let_def)

lemma Function_init_no_module:
  "fn_rootmod f = None \<Longrightarrow>
   Function_init R fname f a h pfile ofile = (f, Inl (AttributeError ''__name__''))"
  by (simp add: Function_init_def)

text \<open>
  Claim C6 does not hold on the code. For a function whose module has no \<^verbatim>\<open>__file__\<close>
  (here the built-in \<^verbatim>\<open>len\<close>) the constructor raises \<^verbatim>\<open>UnboundLocalError\<close>: only the
  branch for a module with a file assigns \<^verbatim>\<open>bimp1\<close>, which line 137 reads. For a
  function whose module \<^verbatim>\<open>inspect.getmodule\<close> does not find it raises
  \<^verbatim>\<open>AttributeError\<close>.
\<close>

theorem C6_no_source_raises:
  "Function_init R fname len_func a h pfile ofile = (len_func, Inl (UnboundLocalError ''bimp1'')) \<and>
   Function_init R fname (len_func\<lparr>fn_rootmod := None\<rparr>) a h pfile ofile
     = (len_func\<lparr>fn_rootmod := None\<rparr>, Inl (AttributeError ''__name__''))"
  by (simp add: Function_init_no_file [where m = "\<lparr>mod_name = ''builtins'', mod_file = None, mod_members = []\<rparr>"]
      Function_init_no_module len_func_def)

lemma fst_Function_init:
  "fst (Function_init R fname f a h pfile ofile)
     = (case fn_rootmod f of
          None \<Rightarrow> f
        | Some m \<Rightarrow> clobber (snd (module_path R m)) f)"
  by (simp add: Function_init_def Let_def split: option.splits prod.splits sum.splits)

lemma takeWhile_rev_tail:
  "c \<notin> set t \<Longrightarrow> takeWhile (\<lambda>x. x \<noteq> c) (rev t @ c # r) = rev t"
  by (induction t rule: rev_induct) auto

lemma dropWhile_rev_tail:
  "c \<notin> set t \<Longrightarrow> dropWhile (\<lambda>x. x \<noteq> c) (rev t @ c # r) = c # r"
  by (induction t rule: rev_induct) auto

lemma path_split_tail:
  "CHR ''/'' \<notin> set t \<Longrightarrow> snd (path_split (d @ ''/'' @ t)) = t"
  by (simp add: path_split_def Let_def takeWhile_rev_tail)

lemma path_splitext_root:
  assumes "base \<noteq> []" "CHR ''.'' \<notin> set base" "CHR ''.'' \<notin> set ext"
  shows "path_splitext (base @ ''.'' @ ext) = (base, ''.'' @ ext)"
proof -
  have not_dots: "\<not> list_all (\<lambda>c. c = CHR ''.'') base"
    using assms(1,2) by (cases base) auto
  show ?thesis
    using assms(3) not_dots
    by (simp add: path_splitext_def Let_def takeWhile_rev_tail dropWhile_rev_tail)
qed

lemma module_stem:
  assumes "base \<noteq> []" "CHR ''/'' \<notin> set base" "CHR ''.'' \<notin> set base"
    "CHR ''/'' \<notin> set ext" "CHR ''.'' \<notin> set ext"
  shows "basename_noext (dir @ ''/'' @ base @ ''.'' @ ext) = base"
proof -
  have "CHR ''/'' \<notin> set (base @ ''.'' @ ext)" using assms(2,4) by simp
  then have "snd (path_split (dir @ ''/'' @ (base @ ''.'' @ ext))) = base @ ''.'' @ ext"
    by (rule path_split_tail)
  then show ?thesis using path_splitext_root [OF assms(1,3,5)] by (simp add: basename_noext_def)
qed

text \<open>
  Claim C9. Whatever else the constructor does, and also when it raises, it leaves the
  caller's function object as follows: if the function's \<^verbatim>\<open>__module__\<close> is
  \<^verbatim>\<open>__main__\<close> and its module has a file whose name without extension is not empty,
  \<^verbatim>\<open>__module__\<close> is set to that name; in every other case the object is unchanged. The
  name without extension of \<^verbatim>\<open>dir/base.ext\<close> is \<^verbatim>\<open>base\<close>.
\<close>

theorem C9_module_clobbered:
  "fst (Function_init R fname f a h pfile ofile)
     = (case fn_rootmod f of
          None \<Rightarrow> f
        | Some m \<Rightarrow>
           (case mod_file m of
              None \<Rightarrow> f
            | Some file \<Rightarrow>
                if fn_module f = ''__main__'' \<and> basename_noext file \<noteq> []
                then f\<lparr>fn_module := basename_noext file\<rparr>
                else f)) \<and>
   (base \<noteq> [] \<and> CHR ''/'' \<notin> set base \<and> CHR ''.'' \<notin> set base \<and>
    CHR ''/'' \<notin> set ext \<and> CHR ''.'' \<notin> set ext \<longrightarrow>
      basename_noext (dir @ ''/'' @ base @ ''.'' @ ext) = base)"
  using module_stem [of base ext dir]
  by (simp add: fst_Function_init module_path_def clobber_def split: option.splits)

theorem C9_module_clobbered_witness:
  "fst (Function_init example_runtime ''job'' main_func PyNone HintsNone None None)
     = main_func\<lparr>fn_module := ''analysis''\<rparr> \<and>
   fst (Function_init example_runtime ''job'' len_func PyNone HintsNone None None) = len_func"
proof -
  have "basename_noext (''/home/user'' @ ''/'' @ ''analysis'' @ ''.'' @ ''py'') = ''analysis''"
    by (rule C9_module_clobbered [THEN conjunct2, THEN mp]) simp
  then have stem: "basename_noext ''/home/user/analysis.py'' = ''analysis''"
    by simp
  note init = C9_module_clobbered [where R = example_runtime and fname = "''job''"
      and a = PyNone and h = HintsNone and pfile = None and ofile = None, THEN conjunct1]
  from init [of main_func] init [of len_func] show ?thesis
    by (simp add: main_func_def len_func_def stem)
qed

section \<open>Verification: the imports of the driver script\<close>

lemma set_filter_imports:
  "set (filter_imports imps acc) = set acc \<union> {s. \<exists>i\<in>set imps. filter_import i = Some s}"
proof (induction imps arbitrary: acc)
  case Nil
  show ?case by simp
next
  case (Cons i imps)
  show ?case
  proof (cases "filter_import i")
    case None
    then show ?thesis by (simp add: Cons.IH)
  next
    case (Some s)
    then show ?thesis by (auto simp: Cons.IH)
  qed
qed

lemma blacklisted_dropped: "blacklisted i \<Longrightarrow> filter_import i = None"
  by (cases i) (simp_all add: blacklisted_def Let_def)

lemma set_sorted_imports: "set_order (set_imps R) \<Longrightarrow> set (sorted_imports R imps) = set imps"
  by (simp add: sorted_imports_def set_order_def)

lemma distinct_sorted_imports: "set_order (set_imps R) \<Longrightarrow> distinct (sorted_imports R imps)"
  by (simp add: sorted_imports_def set_order_def)

lemma set_rendered_imports:
  "set_order (set_imps R) \<Longrightarrow> set_order (set_strs R) \<Longrightarrow>
   set (rendered_imports R imps) = {s. \<exists>i\<in>set imps. filter_import i = Some s}"
  by (simp add: rendered_imports_def set_order_def [of "set_strs R"] set_filter_imports
      set_sorted_imports)

text \<open>
  Claim C5, as amended. The import block of the driver script consists exactly of the
  renderings of the entries that are not blacklisted (and that the filter does not skip
  for another reason): no entry is rendered from a string that is one of \<^verbatim>\<open>os\<close>,
  \<^verbatim>\<open>sys\<close>, \<^verbatim>\<open>dill\<close>, \<^verbatim>\<open>pickle\<close>, nor from a pair whose alias is one of them.
\<close>

theorem C5_blacklist:
  assumes "set_order (set_imps R)" and "set_order (set_strs R)"
  shows "set (rendered_imports R imps)
           = {s. \<exists>i\<in>set imps. \<not> blacklisted i \<and> filter_import i = Some s}"
proof -
  have "{s. \<exists>i\<in>set imps. filter_import i = Some s}
          = {s. \<exists>i\<in>set imps. \<not> blacklisted i \<and> filter_import i = Some s}"
    using blacklisted_dropped by fastforce
  then show ?thesis by (simp only: set_rendered_imports [OF assms])
qed

lemma set_order_remdups: "set_order remdups"
  by (simp add: set_order_def)

theorem C5_blacklist_witness:
  "set (rendered_imports example_runtime [ImpStr ''os'', ImpTuple ''sys'' ''sys'', ImpStr ''scipy''])
     = {s. \<exists>i\<in>set [ImpStr ''os'', ImpTuple ''sys'' ''sys'', ImpStr ''scipy''].
             \<not> blacklisted i \<and> filter_import i = Some s}"
proof -
  have 1: "set_order (set_imps example_runtime)"
    by (simp add: example_runtime_def set_order_remdups)
  have 2: "set_order (set_strs example_runtime)"
    by (simp add: example_runtime_def set_order_remdups)
  show ?thesis by (rule C5_blacklist [OF 1 2])
qed

text \<open>
  The claim C5 as stated fails: the raw hint \<^verbatim>\<open>import os\<close> is passed through, and the
  pair \<^verbatim>\<open>('_os', 'os')\<close> is rendered as \<^verbatim>\<open>import os as _os\<close>; both import \<^verbatim>\<open>os\<close>.
\<close>

theorem C5_counterexample:
  "rendered_imports example_runtime [ImpStr ''import os'', ImpTuple ''_os'' ''os'']
     = [''try:'' @ nl @ ''    import os'' @ nl @ ''except ImportError:'' @ nl @ ''    pass'',
        ''try:'' @ nl @ ''    import os as _os'' @ nl @ ''except ImportError:'' @ nl @ ''    pass'' @ nl]"
  by (simp add: rendered_imports_def sorted_imports_def example_runtime_def ignore_list_def
      startswith_def rstrip_def is_space_def guarded_def nl_def Let_def)

text \<open>
  Claim C8, as amended. The list of entries is free of duplicates and sorted by the key
  of \<^verbatim>\<open>_sort_imports\<close>, which for a pair is the name of the module (its second
  component), not the alias; the rendered entries that are joined into the import block
  are free of duplicates and are exactly the entries the filter lets through.
\<close>

theorem C8_dedup_sorted:
  assumes "set_order (set_imps R)" and "set_order (set_strs R)"
  shows "distinct (sorted_imports R imps) \<and> set (sorted_imports R imps) = set imps \<and>
         sorted (map sort_imports (sorted_imports R imps)) \<and>
         distinct (rendered_imports R imps) \<and>
         set (rendered_imports R imps) = set (filter_imports (sorted_imports R imps) [])"
proof (intro conjI)
  show "distinct (sorted_imports R imps)" by (rule distinct_sorted_imports [OF assms(1)])
  show "set (sorted_imports R imps) = set imps" by (rule set_sorted_imports [OF assms(1)])
  show "sorted (map sort_imports (sorted_imports R imps))" by (simp add: sorted_imports_def)
  show "distinct (rendered_imports R imps)"
    using assms(2) by (simp add: rendered_imports_def set_order_def)
  show "set (rendered_imports R imps) = set (filter_imports (sorted_imports R imps) [])"
    using assms(2) by (simp add: rendered_imports_def set_order_def)
qed

theorem C8_dedup_sorted_witness:
  "sorted_imports example_runtime
      [ImpTuple ''b'' ''amod'', ImpStr ''scipy'', ImpTuple ''a'' ''zmod'', ImpStr ''scipy'']
     = [ImpTuple ''b'' ''amod'', ImpStr ''scipy'', ImpTuple ''a'' ''zmod''] \<and>
   distinct (rendered_imports example_runtime
      [ImpTuple ''b'' ''amod'', ImpStr ''scipy'', ImpTuple ''a'' ''zmod'', ImpStr ''scipy''])"
proof -
  have 1: "set_order (set_imps example_runtime)"
    by (simp add: example_runtime_def set_order_remdups)
  have 2: "set_order (set_strs example_runtime)"
    by (simp add: example_runtime_def set_order_remdups)
  have 3: "sorted_imports example_runtime
      [ImpTuple ''b'' ''amod'', ImpStr ''scipy'', ImpTuple ''a'' ''zmod'', ImpStr ''scipy'']
     = [ImpTuple ''b'' ''amod'', ImpStr ''scipy'', ImpTuple ''a'' ''zmod'']"
    by (simp add: sorted_imports_def example_runtime_def)
  from C8_dedup_sorted [OF 1 2] 3 show ?thesis by simp
qed

text \<open>
  The claim C8 as stated fails: the pairs \<^verbatim>\<open>('b', 'amod')\<close> and \<^verbatim>\<open>('a', 'zmod')\<close> are
  ordered by module name, so that the alias \<^verbatim>\<open>b\<close> comes before the alias \<^verbatim>\<open>a\<close>, in
  the list and in the rendered block.
\<close>

theorem C8_counterexample:
  "map imp_alias (sorted_imports example_runtime [ImpTuple ''b'' ''amod'', ImpTuple ''a'' ''zmod''])
     = [''b'', ''a''] \<and>
   \<not> sorted (map imp_alias
         (sorted_imports example_runtime [ImpTuple ''b'' ''amod'', ImpTuple ''a'' ''zmod''])) \<and>
   rendered_imports example_runtime [ImpTuple ''b'' ''amod'', ImpTuple ''a'' ''zmod'']
     = [guarded ''import amod as b'', guarded ''import zmod as a'']"
  by (simp add: rendered_imports_def sorted_imports_def example_runtime_def ignore_list_def
      startswith_def guarded_def nl_def Let_def)

end
